theory Spec2Isabelle
  imports Main "HOL-Library.Word"
begin

unbundle bit_operations_syntax

section \<open>Native support of IntelDeflater: the data\<close>

text \<open>
  The file \<^verbatim>\<open>IntelDeflater.c\<close> is the JNI glue between the Java class
  \<^verbatim>\<open>htsjdk.samtools.util.zip.IntelDeflater\<close> and two compression libraries, zlib and
  igzip. The libraries, the JVM and the C runtime are not part of the file: they are taken
  as parameters (the record \<open>extern\<close> below). Machine integers are words: \<^verbatim>\<open>jint\<close>,
  \<^verbatim>\<open>int\<close>, \<^verbatim>\<open>uInt\<close> and \<^verbatim>\<open>UINT32\<close> have 32 bits, \<^verbatim>\<open>jlong\<close> and (on
  the LP64 platforms the \<^verbatim>\<open>cpuid\<close> code is written for) \<^verbatim>\<open>uLong\<close> have 64.
\<close>

type_synonym jint = "32 word"
type_synonym jlong = "64 word"
type_synonym uInt = "32 word"
type_synonym uLong = "64 word"
type_synonym UINT32 = "32 word"
type_synonym bytes = "8 word list"

text \<open>
  The fields of \<^verbatim>\<open>z_stream\<close> (zlib.h) that the file or a backend's accounting touches.
  A pointer into a pinned Java array is the offset from the array's first element;
  \<open>None\<close> is the null pointer. \<open>state\<close> is zlib's private state.
\<close>

record 'z z_stream =
  next_in :: "int option"
  avail_in :: uInt
  total_in :: uLong
  next_out :: "int option"
  avail_out :: uInt
  total_out :: uLong
  msg :: "string option"
  state :: "'z option"
  adler :: uLong

text \<open>
  \<^verbatim>\<open>LZ_Stream2\<close> (igzip_lib.h). Its fields carry the prefix \<open>lz_\<close> here, since a field
  name can belong to one record only.
\<close>

record 'l LZ_Stream2 =
  lz_next_in :: "int option"
  lz_avail_in :: UINT32
  lz_total_in :: UINT32
  lz_next_out :: "int option"
  lz_avail_out :: UINT32
  lz_total_out :: UINT32
  lz_end_of_stream :: UINT32
  lz_internal_state :: "'l option"

record ('z, 'l) Stream =
  zStream :: "'z z_stream"
  lz2Stream :: "'l LZ_Stream2"
  useIGZIP :: "32 word"

text \<open>
  The Java object \<^verbatim>\<open>this\<close>: one field for each \<^verbatim>\<open>jfieldID\<close> that \<^verbatim>\<open>initIDs\<close>
  looks up, named after the \<^verbatim>\<open>jfieldID\<close> variable through which the file reads and
  writes it.
\<close>

record jobject =
  levelID :: jint
  strategyID :: jint
  setParamsID :: bool
  finishID :: bool
  finishedID :: bool
  bufID :: bytes
  offID :: jint
  lenID :: jint

text \<open>The two arrays a step pins: the input \<^verbatim>\<open>this_buf\<close> and the output \<^verbatim>\<open>b\<close>.\<close>

datatype jarray = Arr_this_buf | Arr_b

text \<open>
  What the file does to the world outside, in the order it does it: pinning and releasing
  arrays, calls into the two libraries, output and \<^verbatim>\<open>free\<close>.
\<close>

datatype event =
    Printf string
  | Pinned jarray
  | Pin_failed jarray
  | Released jarray
  | Called_init_stream
  | Called_fast_lz
  | Called_deflateInit2 int int int int int
  | Called_deflateParams int int
  | Called_deflate int
  | Called_deflateReset
  | Called_free

text \<open>The JNI environment: the pending Java exception (class name and message), and the trace.\<close>

record jenv =
  pending :: "(string \<times> string option) option"
  trace :: "event list"

record ('z, 'l) world = jenv +
  this :: jobject
  strm :: "('z, 'l) Stream"

text \<open>
  Everything the file calls and does not define: the \<^verbatim>\<open>cpuid\<close> instruction (from
  \<^verbatim>\<open>eax\<close> to \<^verbatim>\<open>ebx\<close>, \<^verbatim>\<open>ecx\<close>, \<^verbatim>\<open>edx\<close>), whether \<^verbatim>\<open>NDEBUG\<close> was defined when
  the file was compiled, whether \<^verbatim>\<open>calloc\<close> succeeds, whether the JVM finds a class and
  pins an array, and the functions of igzip and zlib. A library function gets the stream, the
  pinned input and output arrays where it reads and writes them, and its other arguments;
  it returns its result code, the stream and the output array.
\<close>

record ('z, 'l) extern =
  cpuid :: "32 word \<Rightarrow> 32 word \<times> 32 word \<times> 32 word"
  NDEBUG :: bool
  calloc_ok :: bool
  FindClass :: "string \<Rightarrow> bool"
  GetPrimitiveArrayCritical :: "jarray \<Rightarrow> bool"
  init_stream :: "'l LZ_Stream2 \<Rightarrow> 'l LZ_Stream2"
  fast_lz :: "'l LZ_Stream2 \<Rightarrow> bytes \<Rightarrow> bytes \<Rightarrow> 'l LZ_Stream2 \<times> bytes"
  deflateInit2 :: "'z z_stream \<Rightarrow> int \<Rightarrow> int \<Rightarrow> int \<Rightarrow> int \<Rightarrow> int \<Rightarrow> int \<times> 'z z_stream"
  deflateParams :: "'z z_stream \<Rightarrow> bytes \<Rightarrow> bytes \<Rightarrow> int \<Rightarrow> int \<Rightarrow> int \<times> 'z z_stream \<times> bytes"
  deflate :: "'z z_stream \<Rightarrow> bytes \<Rightarrow> bytes \<Rightarrow> int \<Rightarrow> int \<times> 'z z_stream \<times> bytes"
  deflateReset :: "'z z_stream \<Rightarrow> int \<times> 'z z_stream"

text \<open>
  How a native method ends: it returns, an \<^verbatim>\<open>assert\<close> stops the process, or it
  writes through a null pointer.
\<close>

datatype ('r, 'w) outcome =
    Returns 'r 'w
  | Assertion_failed 'w
  | Null_pointer_write 'w

subsection \<open>Constants\<close>

text \<open>Of the file itself.\<close>

definition DEF_MEM_LEVEL :: int where "DEF_MEM_LEVEL = 8"
definition FAST_COMPRESSION :: jint where "FAST_COMPRESSION = 1"
definition IGZIP_TRUE :: "32 word" where "IGZIP_TRUE = 1"

text \<open>Of zlib.h.\<close>

definition Z_OK :: int where "Z_OK = 0"
definition Z_STREAM_END :: int where "Z_STREAM_END = 1"
definition Z_STREAM_ERROR :: int where "Z_STREAM_ERROR = - 2"
definition Z_MEM_ERROR :: int where "Z_MEM_ERROR = - 4"
definition Z_BUF_ERROR :: int where "Z_BUF_ERROR = - 5"
definition Z_NO_FLUSH :: int where "Z_NO_FLUSH = 0"
definition Z_SYNC_FLUSH :: int where "Z_SYNC_FLUSH = 2"
definition Z_FULL_FLUSH :: int where "Z_FULL_FLUSH = 3"
definition Z_FINISH :: int where "Z_FINISH = 4"
definition Z_DEFLATED :: int where "Z_DEFLATED = 8"
definition MAX_WBITS :: int where "MAX_WBITS = 15"

section \<open>The native methods\<close>

subsection \<open>CPU capability\<close>

definition is_cpuid_ecx_bit_set :: "('z, 'l) extern \<Rightarrow> 32 word \<Rightarrow> nat \<Rightarrow> bool" where
  "is_cpuid_ecx_bit_set X eax bitidx =
     (case cpuid X eax of (ebx, ecx, edx) \<Rightarrow> (signed_drop_bit bitidx ecx) AND 1 = 1)"

text \<open>The branch taken without \<^verbatim>\<open>__INTEL_COMPILER\<close>.\<close>

definition is_sse42_supported :: "('z, 'l) extern \<Rightarrow> bool" where
  "is_sse42_supported X = is_cpuid_ecx_bit_set X 1 20"

subsection \<open>Throwing\<close>

definition emit :: "event \<Rightarrow> 'a jenv_scheme \<Rightarrow> 'a jenv_scheme" where
  "emit e w = w\<lparr>trace := trace w @ [e]\<rparr>"

text \<open>
  \<^verbatim>\<open>JNU_ThrowByName\<close>: when the class is found, an exception of it becomes pending; when
  it is not, \<^verbatim>\<open>FindClass\<close> has left its own exception pending.
\<close>

definition JNU_ThrowByName ::
  "('z, 'l) extern \<Rightarrow> string \<Rightarrow> string option \<Rightarrow> 'a jenv_scheme \<Rightarrow> 'a jenv_scheme" where
  "JNU_ThrowByName X name m w =
     (if FindClass X name then w\<lparr>pending := Some (name, m)\<rparr>
      else w\<lparr>pending := Some (''java/lang/NoClassDefFoundError'', Some name)\<rparr>)"

definition JNU_ThrowOutOfMemoryError ::
  "('z, 'l) extern \<Rightarrow> string option \<Rightarrow> 'a jenv_scheme \<Rightarrow> 'a jenv_scheme" where
  "JNU_ThrowOutOfMemoryError X m = JNU_ThrowByName X ''java/lang/OutOfMemoryError'' m"

definition JNU_ThrowIllegalArgumentException ::
  "('z, 'l) extern \<Rightarrow> string option \<Rightarrow> 'a jenv_scheme \<Rightarrow> 'a jenv_scheme" where
  "JNU_ThrowIllegalArgumentException X m = JNU_ThrowByName X ''java/lang/IllegalArgumentException'' m"

definition JNU_ThrowInternalError ::
  "('z, 'l) extern \<Rightarrow> string option \<Rightarrow> 'a jenv_scheme \<Rightarrow> 'a jenv_scheme" where
  "JNU_ThrowInternalError X m = JNU_ThrowByName X ''java/lang/InternalError'' m"

subsection \<open>init\<close>

text \<open>What \<^verbatim>\<open>calloc(1, sizeof(Stream))\<close> gives when it succeeds: every byte zero.\<close>

definition calloc_Stream :: "('z, 'l) Stream" where
  "calloc_Stream =
     \<lparr>zStream = \<lparr>next_in = None, avail_in = 0, total_in = 0, next_out = None, avail_out = 0,
                 total_out = 0, msg = None, state = None, adler = 0\<rparr>,
      lz2Stream = \<lparr>lz_next_in = None, lz_avail_in = 0, lz_total_in = 0, lz_next_out = None,
                   lz_avail_out = 0, lz_total_out = 0, lz_end_of_stream = 0,
                   lz_internal_state = None\<rparr>,
      useIGZIP = 0\<rparr>"

definition fresh_jenv :: jenv where
  "fresh_jenv = \<lparr>pending = None, trace = []\<rparr>"

text \<open>
  \<^verbatim>\<open>Java_htsjdk_samtools_util_zip_IntelDeflater_init\<close>. The result is the handle: the
  stream it points to, or \<open>None\<close> for \<^verbatim>\<open>jlong_zero\<close>. In the igzip branch the flag is
  written before the pointer is tested.
\<close>

definition init ::
  "('z, 'l) extern \<Rightarrow> jint \<Rightarrow> jint \<Rightarrow> bool \<Rightarrow> (('z, 'l) Stream option, jenv) outcome" where
  "init X level strategy nowrap =
     (let strm = (if calloc_ok X then Some calloc_Stream else None)
      in if level = FAST_COMPRESSION \<and> is_sse42_supported X then
           (let e = emit (Printf (''Using igzip'' @ [CHR 0x0A])) fresh_jenv
            in case strm of
                 None \<Rightarrow> Null_pointer_write e
               | Some s \<Rightarrow>
                   (let s1 = s\<lparr>useIGZIP := IGZIP_TRUE\<rparr>;
                        s2 = s1\<lparr>lz2Stream := init_stream X (lz2Stream s1)\<rparr>
                    in Returns (Some s2) (emit Called_init_stream e)))
         else
           (case strm of
              None \<Rightarrow> Returns None (JNU_ThrowOutOfMemoryError X None fresh_jenv)
            | Some s \<Rightarrow>
                (let wbits = (if nowrap then - MAX_WBITS else MAX_WBITS);
                     e = emit (Called_deflateInit2 (sint level) Z_DEFLATED wbits DEF_MEM_LEVEL
                                 (sint strategy)) fresh_jenv
                 in case deflateInit2 X (zStream s) (sint level) Z_DEFLATED wbits DEF_MEM_LEVEL
                           (sint strategy) of
                      (res, z) \<Rightarrow>
                        if res = Z_OK then Returns (Some (s\<lparr>zStream := z\<rparr>)) e
                        else if res = Z_MEM_ERROR then
                          Returns None (JNU_ThrowOutOfMemoryError X None (emit Called_free e))
                        else if res = Z_STREAM_ERROR then
                          Returns None (JNU_ThrowIllegalArgumentException X None (emit Called_free e))
                        else
                          Returns None (JNU_ThrowInternalError X (msg z) (emit Called_free e)))))"

subsection \<open>deflateBytes\<close>

text \<open>
  \<^verbatim>\<open>Java_htsjdk_samtools_util_zip_IntelDeflater_deflateBytes\<close>, one definition for each
  of its three working branches and one for the test that chooses among them. The
  result is the returned \<^verbatim>\<open>jint\<close> (\<open>None\<close> where control reaches the end of the function
  with no \<^verbatim>\<open>return\<close>) and the output array \<^verbatim>\<open>b\<close>.

  The igzip branch.
\<close>

definition deflateBytes_igzip ::
  "('z, 'l) extern \<Rightarrow> ('z, 'l) world \<Rightarrow> bytes \<Rightarrow> jint \<Rightarrow> jint \<Rightarrow>
     (jint option \<times> bytes, ('z, 'l) world) outcome" where
  "deflateBytes_igzip X w b off len =
     (let this_buf = bufID (this w); this_off = offID (this w); this_len = lenID (this w)
      in if \<not> GetPrimitiveArrayCritical X Arr_this_buf then
           (let w1 = emit (Pin_failed Arr_this_buf) w
            in Returns (Some 0, b)
                 (if this_len \<noteq> 0 then JNU_ThrowOutOfMemoryError X None w1 else w1))
         else if \<not> GetPrimitiveArrayCritical X Arr_b then
           (let w1 = emit (Released Arr_this_buf)
                       (emit (Pin_failed Arr_b) (emit (Pinned Arr_this_buf) w))
            in Returns (Some 0, b)
                 (if len \<noteq> 0 then JNU_ThrowOutOfMemoryError X None w1 else w1))
         else
           (let w1 = emit (Pinned Arr_b) (emit (Pinned Arr_this_buf) w);
                lz = (lz2Stream (strm w1))
                       \<lparr>lz_next_in := Some (sint this_off), lz_next_out := Some (sint off),
                        lz_avail_in := this_len, lz_avail_out := len\<rparr>;
                w2 = w1\<lparr>strm := (strm w1)\<lparr>lz2Stream := lz\<rparr>\<rparr>
            in if \<not> NDEBUG X \<and> lz_avail_in lz = 0 then Assertion_failed w2
               else if \<not> NDEBUG X \<and> lz_avail_out lz = 0 then Assertion_failed w2
               else
                 (let finish = finishID (this w2);
                      lz1 = lz\<lparr>lz_end_of_stream := (if finish then 1 else 0)\<rparr>
                  in case fast_lz X lz1 this_buf b of
                       (lz2, b') \<Rightarrow>
                         (let w3 = emit (Released Arr_this_buf) (emit (Released Arr_b)
                                     (emit Called_fast_lz
                                        (w2\<lparr>strm := (strm w2)\<lparr>lz2Stream := lz2\<rparr>\<rparr>)));
                              w4 = (if finish then w3\<lparr>this := (this w3)\<lparr>finishedID := True\<rparr>\<rparr>
                                    else w3);
                              this_off' = this_off + (this_len - lz_avail_in lz2);
                              w5 = w4\<lparr>this := (this w4)\<lparr>offID := this_off'\<rparr>\<rparr>;
                              w6 = w5\<lparr>this := (this w5)\<lparr>lenID := lz_avail_in lz2\<rparr>\<rparr>
                          in Returns (Some (len - lz_avail_out lz2), b') w6))))"

text \<open>The zlib branch taken when \<^verbatim>\<open>setParams\<close> is set.\<close>

definition deflateBytes_params ::
  "('z, 'l) extern \<Rightarrow> ('z, 'l) world \<Rightarrow> bytes \<Rightarrow> jint \<Rightarrow> jint \<Rightarrow>
     (jint option \<times> bytes, ('z, 'l) world) outcome" where
  "deflateBytes_params X w b off len =
     (let this_buf = bufID (this w); this_off = offID (this w); this_len = lenID (this w);
          level = levelID (this w); strategy = strategyID (this w)
      in if \<not> GetPrimitiveArrayCritical X Arr_this_buf then
           (let w1 = emit (Pin_failed Arr_this_buf) w
            in Returns (Some 0, b)
                 (if this_len \<noteq> 0 then JNU_ThrowOutOfMemoryError X None w1 else w1))
         else if \<not> GetPrimitiveArrayCritical X Arr_b then
           (let w1 = emit (Released Arr_this_buf)
                       (emit (Pin_failed Arr_b) (emit (Pinned Arr_this_buf) w))
            in Returns (Some 0, b)
                 (if len \<noteq> 0 then JNU_ThrowOutOfMemoryError X None w1 else w1))
         else
           (let w1 = emit (Pinned Arr_b) (emit (Pinned Arr_this_buf) w);
                z = (zStream (strm w1))
                      \<lparr>next_in := Some (sint this_off), next_out := Some (sint off),
                       avail_in := this_len, avail_out := len\<rparr>
            in case deflateParams X z this_buf b (sint level) (sint strategy) of
                 (res, z', b') \<Rightarrow>
                   (let w2 = emit (Released Arr_this_buf) (emit (Released Arr_b)
                               (emit (Called_deflateParams (sint level) (sint strategy))
                                  (w1\<lparr>strm := (strm w1)\<lparr>zStream := z'\<rparr>\<rparr>)))
                    in if res = Z_OK then
                         (let w3 = w2\<lparr>this := (this w2)\<lparr>setParamsID := False\<rparr>\<rparr>;
                              this_off' = this_off + (this_len - avail_in z');
                              w4 = w3\<lparr>this := (this w3)\<lparr>offID := this_off'\<rparr>\<rparr>;
                              w5 = w4\<lparr>this := (this w4)\<lparr>lenID := avail_in z'\<rparr>\<rparr>
                          in Returns (Some (len - avail_out z'), b') w5)
                       else if res = Z_BUF_ERROR then
                         Returns (Some 0, b') (w2\<lparr>this := (this w2)\<lparr>setParamsID := False\<rparr>\<rparr>)
                       else
                         Returns (Some 0, b') (JNU_ThrowInternalError X (msg z') w2))))"

text \<open>The zlib branch taken otherwise.\<close>

definition deflateBytes_deflate ::
  "('z, 'l) extern \<Rightarrow> ('z, 'l) world \<Rightarrow> bytes \<Rightarrow> jint \<Rightarrow> jint \<Rightarrow> jint \<Rightarrow>
     (jint option \<times> bytes, ('z, 'l) world) outcome" where
  "deflateBytes_deflate X w b off len flush =
     (let this_buf = bufID (this w); this_off = offID (this w); this_len = lenID (this w);
          finish = finishID (this w)
      in if \<not> GetPrimitiveArrayCritical X Arr_this_buf then
           (let w1 = emit (Pin_failed Arr_this_buf) w
            in Returns (Some 0, b)
                 (if this_len \<noteq> 0 then JNU_ThrowOutOfMemoryError X None w1 else w1))
         else if \<not> GetPrimitiveArrayCritical X Arr_b then
           (let w1 = emit (Released Arr_this_buf)
                       (emit (Pin_failed Arr_b) (emit (Pinned Arr_this_buf) w))
            in Returns (Some 0, b)
                 (if len \<noteq> 0 then JNU_ThrowOutOfMemoryError X None w1 else w1))
         else
           (let w1 = emit (Pinned Arr_b) (emit (Pinned Arr_this_buf) w);
                z = (zStream (strm w1))
                      \<lparr>next_in := Some (sint this_off), next_out := Some (sint off),
                       avail_in := this_len, avail_out := len\<rparr>;
                fl = (if finish then Z_FINISH else sint flush)
            in case deflate X z this_buf b fl of
                 (res, z', b') \<Rightarrow>
                   (let w2 = emit (Released Arr_this_buf) (emit (Released Arr_b)
                               (emit (Called_deflate fl)
                                  (w1\<lparr>strm := (strm w1)\<lparr>zStream := z'\<rparr>\<rparr>)))
                    in if res = Z_STREAM_END \<or> res = Z_OK then
                         (let w3 = (if res = Z_STREAM_END
                                    then w2\<lparr>this := (this w2)\<lparr>finishedID := True\<rparr>\<rparr> else w2);
                              this_off' = this_off + (this_len - avail_in z');
                              w4 = w3\<lparr>this := (this w3)\<lparr>offID := this_off'\<rparr>\<rparr>;
                              w5 = w4\<lparr>this := (this w4)\<lparr>lenID := avail_in z'\<rparr>\<rparr>
                          in Returns (Some (len - avail_out z'), b') w5)
                       else if res = Z_BUF_ERROR then Returns (Some 0, b') w2
                       else Returns (Some 0, b') (JNU_ThrowInternalError X (msg z') w2))))"

text \<open>
  The whole method. Its first branch throws and falls off the end of the function.
\<close>

definition deflateBytes ::
  "('z, 'l) extern \<Rightarrow> ('z, 'l) world \<Rightarrow> bytes \<Rightarrow> jint \<Rightarrow> jint \<Rightarrow> jint \<Rightarrow>
     (jint option \<times> bytes, ('z, 'l) world) outcome" where
  "deflateBytes X w b off len flush =
     (if useIGZIP (strm w) \<noteq> 0 \<and>
         ((setParamsID (this w) \<and> lz_total_in (lz2Stream (strm w)) \<noteq> 0) \<or> flush = 1)
      then Returns (None, b)
             (JNU_ThrowInternalError X (Some ''igzip doesn't support this'') w)
      else if useIGZIP (strm w) \<noteq> 0 then deflateBytes_igzip X w b off len
      else if setParamsID (this w) then deflateBytes_params X w b off len
      else deflateBytes_deflate X w b off len flush)"

subsection \<open>Queries and reset\<close>

text \<open>
  \<^verbatim>\<open>getAdler\<close> narrows the \<^verbatim>\<open>uLong\<close> checksum to a \<^verbatim>\<open>jint\<close>; on igzip it throws
  and reaches the end of the function without a \<^verbatim>\<open>return\<close>. The two counters widen
  igzip's 32-bit totals to a \<^verbatim>\<open>jlong\<close>. These methods and \<^verbatim>\<open>reset\<close> are static: they
  get the stream and never the object.
\<close>

definition getAdler :: "('z, 'l) extern \<Rightarrow> ('z, 'l) world \<Rightarrow> jint option \<times> ('z, 'l) world" where
  "getAdler X w =
     (if useIGZIP (strm w) \<noteq> 0
      then (None, JNU_ThrowInternalError X (Some ''igzip doesn't support getAdler function'') w)
      else (Some (ucast (adler (zStream (strm w)))), w))"

definition getBytesRead :: "('z, 'l) world \<Rightarrow> jlong" where
  "getBytesRead w =
     (if useIGZIP (strm w) \<noteq> 0 then ucast (lz_total_in (lz2Stream (strm w)))
      else total_in (zStream (strm w)))"

definition getBytesWritten :: "('z, 'l) world \<Rightarrow> jlong" where
  "getBytesWritten w =
     (if useIGZIP (strm w) \<noteq> 0 then ucast (lz_total_out (lz2Stream (strm w)))
      else total_out (zStream (strm w)))"

definition reset :: "('z, 'l) extern \<Rightarrow> ('z, 'l) world \<Rightarrow> ('z, 'l) world" where
  "reset X w =
     (if useIGZIP (strm w) \<noteq> 0
      then emit Called_init_stream
             (w\<lparr>strm := (strm w)\<lparr>lz2Stream := init_stream X (lz2Stream (strm w))\<rparr>\<rparr>)
      else
        (case deflateReset X (zStream (strm w)) of
           (res, z) \<Rightarrow>
             (let w1 = emit Called_deflateReset (w\<lparr>strm := (strm w)\<lparr>zStream := z\<rparr>\<rparr>)
              in if res \<noteq> Z_OK then JNU_ThrowInternalError X None w1 else w1)))"

section \<open>The vocabulary of the specification\<close>

text \<open>
  The specification speaks of the active backend of a session; in the file it is the flag
  \<^verbatim>\<open>useIGZIP\<close>, which every method tests for being nonzero.
\<close>

datatype backend = Standard | Fast

definition activeBackend :: "('z, 'l) Stream \<Rightarrow> backend" where
  "activeBackend s = (if useIGZIP s \<noteq> 0 then Fast else Standard)"

text \<open>
  The zlib stream as \<^verbatim>\<open>deflate\<close> or \<^verbatim>\<open>deflateParams\<close> finds it in a step (both buffers
  staged), the flush argument that \<^verbatim>\<open>deflate\<close> gets, and the zlib call that a step on a
  zlib session makes once both arrays are pinned.
\<close>

definition staged :: "('z, 'l) world \<Rightarrow> jint \<Rightarrow> jint \<Rightarrow> 'z z_stream" where
  "staged w off len =
     (zStream (strm w))\<lparr>next_in := Some (sint (offID (this w))), next_out := Some (sint off),
                        avail_in := lenID (this w), avail_out := len\<rparr>"

definition flush_arg :: "('z, 'l) world \<Rightarrow> jint \<Rightarrow> int" where
  "flush_arg w flush = (if finishID (this w) then Z_FINISH else sint flush)"

definition zlib_call ::
  "('z, 'l) extern \<Rightarrow> ('z, 'l) world \<Rightarrow> bytes \<Rightarrow> jint \<Rightarrow> jint \<Rightarrow> jint \<Rightarrow>
     int \<times> 'z z_stream \<times> bytes" where
  "zlib_call X w b off len flush =
     (if setParamsID (this w)
      then deflateParams X (staged w off len) (bufID (this w)) b
             (sint (levelID (this w))) (sint (strategyID (this w)))
      else deflate X (staged w off len) (bufID (this w)) b (flush_arg w flush))"

text \<open>The test with which \<^verbatim>\<open>deflateBytes\<close> refuses a step on igzip.\<close>

definition igzip_refuses :: "('z, 'l) world \<Rightarrow> jint \<Rightarrow> bool" where
  "igzip_refuses w flush =
     (useIGZIP (strm w) \<noteq> 0 \<and>
      ((setParamsID (this w) \<and> lz_total_in (lz2Stream (strm w)) \<noteq> 0) \<or> flush = 1))"

text \<open>
  A zlib call that makes no progress: it reports \<^verbatim>\<open>Z_OK\<close> or \<^verbatim>\<open>Z_BUF_ERROR\<close> and
  leaves the four counts of the stream as it found them.
\<close>

definition idle :: "'z z_stream \<Rightarrow> int \<times> 'z z_stream \<times> bytes \<Rightarrow> bool" where
  "idle z r =
     (case r of
        (res, z', b') \<Rightarrow>
          (res = Z_OK \<or> res = Z_BUF_ERROR) \<and> avail_in z' = avail_in z \<and>
          avail_out z' = avail_out z \<and> total_in z' = total_in z \<and> total_out z' = total_out z)"

text \<open>
  The backend's own reset does what both libraries document: \<^verbatim>\<open>init_stream\<close> and a
  successful \<^verbatim>\<open>deflateReset\<close> leave both totals of the stream zero.
\<close>

definition reset_zeroes :: "('z, 'l) extern \<Rightarrow> ('z, 'l) world \<Rightarrow> bool" where
  "reset_zeroes X w =
     (if useIGZIP (strm w) \<noteq> 0
      then lz_total_in (init_stream X (lz2Stream (strm w))) = 0 \<and>
           lz_total_out (init_stream X (lz2Stream (strm w))) = 0
      else (case deflateReset X (zStream (strm w)) of
              (res, z) \<Rightarrow> res = Z_OK \<and> total_in z = 0 \<and> total_out z = 0))"

text \<open>
  Modelled from the spec: the reset of a session as a whole. Its managed half, the Java
  method \<^verbatim>\<open>IntelDeflater.reset\<close>, is not among the sources; the native \<^verbatim>\<open>reset\<close> above
  is static and cannot reach the fields of the object. The specification: ``Reset returns
  to Active from any non-terminal state with counters and finished cleared'', and ``after
  reset, all counters equal their fresh-session values and finished is false''. So the
  session's reset is the native reset followed by the clearing of \<^verbatim>\<open>finished\<close>.
\<close>

definition session_reset :: "('z, 'l) extern \<Rightarrow> ('z, 'l) world \<Rightarrow> ('z, 'l) world" where
  "session_reset X w = (let w' = reset X w in w'\<lparr>this := (this w')\<lparr>finishedID := False\<rparr>\<rparr>)"

section \<open>A storing backend\<close>

text \<open>
  To run the methods on concrete inputs the parameters need values. The backends here
  store: a step copies as many bytes as both buffers allow, keeps the counts of the
  stream as zlib and igzip keep them, and reports what zlib reports (no output room is
  \<^verbatim>\<open>Z_BUF_ERROR\<close>, a finished input under \<^verbatim>\<open>Z_FINISH\<close> is \<^verbatim>\<open>Z_STREAM_END\<close>).
\<close>

definition copy_bytes :: "bytes \<Rightarrow> int \<Rightarrow> bytes \<Rightarrow> int \<Rightarrow> nat \<Rightarrow> bytes" where
  "copy_bytes src i dst j n = take (nat j) dst @ take n (drop (nat i) src) @ drop (nat j + n) dst"

definition stored_init_stream :: "unit LZ_Stream2 \<Rightarrow> unit LZ_Stream2" where
  "stored_init_stream lz = lz\<lparr>lz_total_in := 0, lz_total_out := 0, lz_internal_state := Some ()\<rparr>"

definition stored_fast_lz :: "unit LZ_Stream2 \<Rightarrow> bytes \<Rightarrow> bytes \<Rightarrow> unit LZ_Stream2 \<times> bytes" where
  "stored_fast_lz lz inb outb =
     (let n = min (lz_avail_in lz) (lz_avail_out lz);
          i = (case lz_next_in lz of None \<Rightarrow> 0 | Some k \<Rightarrow> k);
          j = (case lz_next_out lz of None \<Rightarrow> 0 | Some k \<Rightarrow> k)
      in (lz\<lparr>lz_next_in := Some (i + uint n), lz_avail_in := lz_avail_in lz - n,
              lz_total_in := lz_total_in lz + n,
              lz_next_out := Some (j + uint n), lz_avail_out := lz_avail_out lz - n,
              lz_total_out := lz_total_out lz + n\<rparr>,
          copy_bytes inb i outb j (unat n)))"

definition stored_deflateInit2 ::
  "unit z_stream \<Rightarrow> int \<Rightarrow> int \<Rightarrow> int \<Rightarrow> int \<Rightarrow> int \<Rightarrow> int \<times> unit z_stream" where
  "stored_deflateInit2 z level method windowBits memLevel strategy =
     (if level < - 1 \<or> 9 < level \<or> strategy < 0 \<or> 4 < strategy
      then (Z_STREAM_ERROR, z\<lparr>msg := None\<rparr>)
      else (Z_OK, z\<lparr>total_in := 0, total_out := 0, msg := None, state := Some (), adler := 1\<rparr>))"

definition stored_deflate ::
  "unit z_stream \<Rightarrow> bytes \<Rightarrow> bytes \<Rightarrow> int \<Rightarrow> int \<times> unit z_stream \<times> bytes" where
  "stored_deflate z inb outb flush =
     (if avail_out z = 0 then (Z_BUF_ERROR, z\<lparr>msg := Some ''buffer error''\<rparr>, outb)
      else
        (let n = min (avail_in z) (avail_out z);
             i = (case next_in z of None \<Rightarrow> 0 | Some k \<Rightarrow> k);
             j = (case next_out z of None \<Rightarrow> 0 | Some k \<Rightarrow> k);
             z' = z\<lparr>next_in := Some (i + uint n), avail_in := avail_in z - n,
                    total_in := total_in z + ucast n,
                    next_out := Some (j + uint n), avail_out := avail_out z - n,
                    total_out := total_out z + ucast n\<rparr>
         in (if flush = Z_FINISH \<and> avail_in z' = 0 then Z_STREAM_END else Z_OK, z',
             copy_bytes inb i outb j (unat n))))"

definition stored_deflateParams ::
  "unit z_stream \<Rightarrow> bytes \<Rightarrow> bytes \<Rightarrow> int \<Rightarrow> int \<Rightarrow> int \<times> unit z_stream \<times> bytes" where
  "stored_deflateParams z inb outb level strategy =
     (if level < - 1 \<or> 9 < level \<or> strategy < 0 \<or> 4 < strategy
      then (Z_STREAM_ERROR, z, outb)
      else if total_in z \<noteq> 0 \<and> avail_out z = 0
      then (Z_BUF_ERROR, z\<lparr>msg := Some ''buffer error''\<rparr>, outb)
      else (Z_OK, z, outb))"

definition stored_deflateReset :: "unit z_stream \<Rightarrow> int \<times> unit z_stream" where
  "stored_deflateReset z =
     (case state z of
        None \<Rightarrow> (Z_STREAM_ERROR, z)
      | Some u \<Rightarrow> (Z_OK, z\<lparr>total_in := 0, total_out := 0, msg := None, adler := 1\<rparr>))"

text \<open>
  A machine with SSE4.2 (bit 20 of \<^verbatim>\<open>ecx\<close>) and one without, assertions compiled in,
  and a JVM that finds every class and pins every array.
\<close>

definition stored_extern :: "bool \<Rightarrow> (unit, unit) extern" where
  "stored_extern sse42 =
     \<lparr>cpuid = (\<lambda>eax. (0, if sse42 then 0x100000 else 0, 0)),
      NDEBUG = False,
      calloc_ok = True,
      FindClass = (\<lambda>name. True),
      GetPrimitiveArrayCritical = (\<lambda>a. True),
      init_stream = stored_init_stream,
      fast_lz = stored_fast_lz,
      deflateInit2 = stored_deflateInit2,
      deflateParams = stored_deflateParams,
      deflate = stored_deflate,
      deflateReset = stored_deflateReset\<rparr>"

text \<open>
  Sessions to run: a Java object with five bytes of input waiting, on the stream that
  \<^verbatim>\<open>init\<close> returns for igzip and on the one it returns for zlib, and the same two
  streams after seven bytes have gone through them.
\<close>

definition sample_this :: jobject where
  "sample_this =
     \<lparr>levelID = 6, strategyID = 0, setParamsID = False, finishID = False, finishedID = False,
      bufID = [1, 2, 3, 4, 5], offID = 0, lenID = 5\<rparr>"

definition igzip_Stream :: "(unit, unit) Stream" where
  "igzip_Stream =
     (calloc_Stream :: (unit, unit) Stream)
       \<lparr>useIGZIP := 1,
        lz2Stream := stored_init_stream (lz2Stream (calloc_Stream :: (unit, unit) Stream))\<rparr>"

definition zlib_Stream :: "(unit, unit) Stream" where
  "zlib_Stream =
     (calloc_Stream :: (unit, unit) Stream)
       \<lparr>zStream :=
          snd (stored_deflateInit2 (zStream (calloc_Stream :: (unit, unit) Stream)) 6 8 15 8 0)\<rparr>"

definition igzip_Stream_used :: "(unit, unit) Stream" where
  "igzip_Stream_used =
     igzip_Stream\<lparr>lz2Stream := (lz2Stream igzip_Stream)\<lparr>lz_total_in := 7, lz_total_out := 7\<rparr>\<rparr>"

definition zlib_Stream_used :: "(unit, unit) Stream" where
  "zlib_Stream_used =
     zlib_Stream\<lparr>zStream := (zStream zlib_Stream)\<lparr>total_in := 7, total_out := 7\<rparr>\<rparr>"

definition session :: "jobject \<Rightarrow> (unit, unit) Stream \<Rightarrow> (unit, unit) world" where
  "session t s = \<lparr>pending = None, trace = [], this = t, strm = s\<rparr>"

section \<open>Facts used throughout\<close>

lemmas throw_defs =
  JNU_ThrowInternalError_def JNU_ThrowOutOfMemoryError_def
  JNU_ThrowIllegalArgumentException_def JNU_ThrowByName_def

lemmas const_defs =
  Z_OK_def Z_STREAM_END_def Z_STREAM_ERROR_def Z_MEM_ERROR_def Z_BUF_ERROR_def Z_NO_FLUSH_def
  Z_SYNC_FLUSH_def Z_FULL_FLUSH_def Z_FINISH_def Z_DEFLATED_def MAX_WBITS_def DEF_MEM_LEVEL_def
  FAST_COMPRESSION_def IGZIP_TRUE_def

lemmas stored_defs =
  stored_extern_def stored_init_stream_def stored_fast_lz_def stored_deflateInit2_def
  stored_deflate_def stored_deflateParams_def stored_deflateReset_def copy_bytes_def
  sample_this_def igzip_Stream_def zlib_Stream_def igzip_Stream_used_def zlib_Stream_used_def
  session_def calloc_Stream_def

lemmas step_defs =
  deflateBytes_def deflateBytes_igzip_def deflateBytes_params_def deflateBytes_deflate_def
  staged_def flush_arg_def zlib_call_def igzip_refuses_def emit_def Let_def

lemmas query_defs =
  getAdler_def getBytesRead_def getBytesWritten_def reset_def session_reset_def
  reset_zeroes_def activeBackend_def idle_def

text \<open>
  What a refused step is: the exception and nothing else. No array is pinned, no backend
  is called, the fields of the object and the stream stay as they were, and no value is
  returned.
\<close>

lemma igzip_refusal:
  assumes "igzip_refuses w flush"
  shows "deflateBytes X w b off len flush =
           Returns (None, b) (JNU_ThrowInternalError X (Some ''igzip doesn't support this'') w)"
  using assms by (simp add: step_defs)

lemma igzip_refusal_state:
  assumes "igzip_refuses w flush" and "deflateBytes X w b off len flush = Returns r w'"
  shows "this w' = this w \<and> strm w' = strm w \<and> trace w' = trace w \<and> pending w' \<noteq> None"
  using assms by (auto simp: step_defs throw_defs)

section \<open>The claims\<close>

subsection \<open>Choice of the backend\<close>

text \<open>
  C1. Provided the allocation of the stream succeeds, \<^verbatim>\<open>init\<close> returns an igzip session
  if and only if the level is 1 (\<^verbatim>\<open>FAST_COMPRESSION\<close>) and the CPU probe is true, and
  then it has called \<^verbatim>\<open>init_stream\<close> and nothing of zlib. In every other case it calls
  \<^verbatim>\<open>deflateInit2\<close> on the zeroed stream with the requested level, the method
  \<^verbatim>\<open>Z_DEFLATED\<close>, window bits 15 (wrapped) when \<open>nowrap\<close> is false and - 15 (raw) when
  it is true, memory level 8 and the requested strategy, and never \<^verbatim>\<open>init_stream\<close>; on
  \<^verbatim>\<open>Z_OK\<close> the handle is a zlib session holding the stream so initialised, otherwise
  there is no handle and an exception is pending.
\<close>

theorem init_backend_choice:
  assumes "calloc_ok (X :: ('z, 'l) extern)"
  shows "((\<exists>s e. init X level strategy nowrap = Returns (Some s) e \<and> activeBackend s = Fast)
            \<longleftrightarrow> level = 1 \<and> is_sse42_supported X)
       \<and> (level = 1 \<and> is_sse42_supported X \<longrightarrow>
            (\<exists>s e. init X level strategy nowrap = Returns (Some s) e \<and>
               lz2Stream s = init_stream X (lz2Stream (calloc_Stream :: ('z, 'l) Stream)) \<and>
               trace e = [Printf (''Using igzip'' @ [CHR 0x0A]), Called_init_stream]))
       \<and> (\<not> (level = 1 \<and> is_sse42_supported X) \<longrightarrow>
            (\<exists>h e. init X level strategy nowrap = Returns h e \<and>
               hd (trace e) =
                 Called_deflateInit2 (sint level) Z_DEFLATED
                   (if nowrap then - MAX_WBITS else MAX_WBITS) DEF_MEM_LEVEL (sint strategy) \<and>
               Called_init_stream \<notin> set (trace e) \<and>
               (case deflateInit2 X (zStream (calloc_Stream :: ('z, 'l) Stream)) (sint level) Z_DEFLATED
                       (if nowrap then - MAX_WBITS else MAX_WBITS) DEF_MEM_LEVEL (sint strategy) of
                  (res, z) \<Rightarrow>
                    if res = Z_OK
                    then h = Some (calloc_Stream\<lparr>zStream := z\<rparr>) \<and>
                         activeBackend (calloc_Stream\<lparr>zStream := z\<rparr>) = Standard \<and>
                         pending e = None
                    else h = None \<and> pending e \<noteq> None)))"
  using assms
  by (auto simp: init_def Let_def activeBackend_def emit_def fresh_jenv_def const_defs throw_defs
        calloc_Stream_def split: prod.splits)

theorem init_backend_choice_witness:
  "calloc_ok (stored_extern True) \<and>
   is_sse42_supported (stored_extern True) \<and>
   (\<exists>s e. init (stored_extern True) 1 0 False = Returns (Some s) e \<and>
      lz2Stream s = stored_init_stream (lz2Stream (calloc_Stream :: (unit, unit) Stream)) \<and>
      trace e = [Printf (''Using igzip'' @ [CHR 0x0A]), Called_init_stream]) \<and>
   \<not> is_sse42_supported (stored_extern False) \<and>
   (\<exists>h e. init (stored_extern False) 1 0 True = Returns h e \<and>
      hd (trace e) = Called_deflateInit2 1 8 (- 15) 8 0 \<and> h = Some ((calloc_Stream :: (unit, unit) Stream)
                  \<lparr>zStream := (zStream (calloc_Stream :: (unit, unit) Stream))
                                 \<lparr>state := Some (), adler := 1\<rparr>\<rparr>))"
  using init_backend_choice [of "stored_extern True" 1 0 False]
    init_backend_choice [of "stored_extern False" 1 0 True]
  by (simp add: stored_defs is_sse42_supported_def is_cpuid_ecx_bit_set_def const_defs init_def
      Let_def emit_def fresh_jenv_def activeBackend_def)

subsection \<open>A step while a parameter change is pending\<close>

text \<open>
  C2, as the file has it. On a zlib session with \<^verbatim>\<open>setParams\<close> set and both arrays
  pinned, the step calls \<^verbatim>\<open>deflateParams\<close> on the staged stream. When the result is
  \<^verbatim>\<open>Z_BUF_ERROR\<close> the step returns 0, throws nothing, and clears \<^verbatim>\<open>setParams\<close> as it
  does on \<^verbatim>\<open>Z_OK\<close>, every other field of the object staying as it was: the application
  is not tried again by the next call. The flag stays set only on another result, which
  is thrown as an \<^verbatim>\<open>InternalError\<close> (and on a failed pin, see C6).
\<close>

theorem params_branch_results:
  assumes "useIGZIP (strm w) = 0" and "setParamsID (this w)"
    and "GetPrimitiveArrayCritical X Arr_this_buf" and "GetPrimitiveArrayCritical X Arr_b"
    and "FindClass X ''java/lang/InternalError''"
    and "deflateParams X (staged w off len) (bufID (this w)) b
           (sint (levelID (this w))) (sint (strategyID (this w))) = (res, z', b')"
  shows "\<exists>w'. deflateBytes X w b off len flush =
            Returns (if res = Z_OK then Some (len - avail_out z') else Some 0, b') w'
          \<and> (res = Z_BUF_ERROR \<longrightarrow>
                this w' = (this w)\<lparr>setParamsID := False\<rparr> \<and> pending w' = pending w)
          \<and> (res = Z_OK \<longrightarrow> \<not> setParamsID (this w') \<and> pending w' = pending w)
          \<and> (res \<noteq> Z_OK \<and> res \<noteq> Z_BUF_ERROR \<longrightarrow>
                this w' = this w \<and> pending w' = Some (''java/lang/InternalError'', msg z'))"
  using assms
  by (auto simp: step_defs const_defs throw_defs)

theorem params_branch_results_witness:
  "useIGZIP (strm (session (sample_this\<lparr>setParamsID := True\<rparr>) zlib_Stream_used)) = 0 \<and>
   setParamsID (this (session (sample_this\<lparr>setParamsID := True\<rparr>) zlib_Stream_used)) \<and>
   GetPrimitiveArrayCritical (stored_extern False) Arr_this_buf \<and>
   GetPrimitiveArrayCritical (stored_extern False) Arr_b \<and>
   FindClass (stored_extern False) ''java/lang/InternalError'' \<and>
   (\<exists>w'. deflateBytes (stored_extern False)
            (session (sample_this\<lparr>setParamsID := True\<rparr>) zlib_Stream_used) [] 0 0 0 =
          Returns (Some 0, []) w' \<and>
          this w' = sample_this \<and> pending w' = None)"
  using params_branch_results [of "session (sample_this\<lparr>setParamsID := True\<rparr>) zlib_Stream_used"
      "stored_extern False" 0 0 "[]" Z_BUF_ERROR
      "(staged (session (sample_this\<lparr>setParamsID := True\<rparr>) zlib_Stream_used) 0 0)
         \<lparr>msg := Some ''buffer error''\<rparr>"
      "[]" 0]
  by (simp add: stored_defs step_defs const_defs)

text \<open>
  The claim as it was stated fails here: seven bytes into a zlib stream, a parameter
  change is pending and the step has no output room; \<^verbatim>\<open>deflateParams\<close> reports
  \<^verbatim>\<open>Z_BUF_ERROR\<close>, the step returns 0, and \<^verbatim>\<open>setParams\<close> is clear afterwards.
\<close>

theorem params_buffer_error_flag_not_kept:
  "fst (deflateParams (stored_extern False)
          (staged (session (sample_this\<lparr>setParamsID := True\<rparr>) zlib_Stream_used) 0 0)
          [1, 2, 3, 4, 5] [] 6 0) = Z_BUF_ERROR \<and>
   (\<exists>w'. deflateBytes (stored_extern False)
            (session (sample_this\<lparr>setParamsID := True\<rparr>) zlib_Stream_used) [] 0 0 0 =
          Returns (Some 0, []) w' \<and> \<not> setParamsID (this w'))"
  by (simp add: stored_defs step_defs const_defs)

subsection \<open>What igzip refuses\<close>

text \<open>
  C3 asks that every flush request on an igzip session is refused. The file's comment says
  that igzip does not support flush, but its test is \<^verbatim>\<open>flush == 1\<close>, and 1 is neither
  \<^verbatim>\<open>Z_SYNC_FLUSH\<close> (2) nor \<^verbatim>\<open>Z_FULL_FLUSH\<close> (3), the values a caller passes (the zlib
  branch hands \<^verbatim>\<open>flush\<close> to \<^verbatim>\<open>deflate\<close> as it is). On a fresh igzip session a step with
  either value is not refused: both arrays are pinned, \<^verbatim>\<open>fast_lz\<close> runs, five bytes are
  consumed and produced, and nothing is thrown.
\<close>

theorem igzip_flush_not_refused:
  "sint (2 :: jint) = Z_SYNC_FLUSH \<and> sint (3 :: jint) = Z_FULL_FLUSH \<and>
   activeBackend (strm (session sample_this igzip_Stream)) = Fast \<and>
   deflateBytes (stored_extern True) (session sample_this igzip_Stream) [0, 0, 0, 0, 0, 0] 0 6 2 =
     Returns (Some 5, [1, 2, 3, 4, 5, 0])
       (session (sample_this\<lparr>offID := 5, lenID := 0\<rparr>)
          (igzip_Stream\<lparr>lz2Stream :=
             \<lparr>lz_next_in = Some 5, lz_avail_in = 0, lz_total_in = 5, lz_next_out = Some 5,
              lz_avail_out = 1, lz_total_out = 5, lz_end_of_stream = 0,
              lz_internal_state = Some ()\<rparr>\<rparr>)
          \<lparr>trace := [Pinned Arr_this_buf, Pinned Arr_b, Called_fast_lz, Released Arr_b,
                     Released Arr_this_buf]\<rparr>) \<and>
   deflateBytes (stored_extern True) (session sample_this igzip_Stream) [0, 0, 0, 0, 0, 0] 0 6 3 =
     deflateBytes (stored_extern True) (session sample_this igzip_Stream) [0, 0, 0, 0, 0, 0] 0 6 2"
  by (simp add: stored_defs step_defs const_defs activeBackend_def)

subsection \<open>The empty step\<close>

text \<open>The cases of the empty step, each on its own.\<close>

lemma empty_step_pin_failed:
  assumes "lenID (this w) = 0" and "useIGZIP (strm w) = 0"
    and "\<not> (GetPrimitiveArrayCritical X Arr_this_buf \<and> GetPrimitiveArrayCritical X Arr_b)"
  shows "\<exists>w'. deflateBytes X w b off 0 flush = Returns (Some 0, b) w' \<and>
           pending w' = pending w \<and> this w' = this w \<and> strm w' = strm w"
  using assms
  by (cases "setParamsID (this w)"; cases "GetPrimitiveArrayCritical X Arr_this_buf")
     (simp_all add: deflateBytes_def deflateBytes_params_def deflateBytes_deflate_def emit_def
        Let_def)

lemma empty_step_params:
  assumes "lenID (this w) = 0" and "useIGZIP (strm w) = 0" and "setParamsID (this w)"
    and "GetPrimitiveArrayCritical X Arr_this_buf" and "GetPrimitiveArrayCritical X Arr_b"
    and "idle (staged w off 0) (zlib_call X w b off 0 flush)"
  shows "\<exists>b' w'. deflateBytes X w b off 0 flush = Returns (Some 0, b') w' \<and>
           pending w' = pending w \<and> this w' = (this w)\<lparr>setParamsID := False\<rparr> \<and>
           getBytesRead w' = getBytesRead w \<and> getBytesWritten w' = getBytesWritten w"
proof -
  obtain res z' b' where call:
    "deflateParams X (staged w off 0) (bufID (this w)) b
       (sint (levelID (this w))) (sint (strategyID (this w))) = (res, z', b')"
    using prod_cases3 by blast
  from assms call have i: "avail_in z' = 0" "avail_out z' = 0"
    "total_in z' = total_in (zStream (strm w))" "total_out z' = total_out (zStream (strm w))"
    and r: "res = Z_OK \<or> res = Z_BUF_ERROR"
    by (simp_all add: idle_def staged_def zlib_call_def)
  have t: "(this w)\<lparr>setParamsID := False, offID := offID (this w), lenID := 0\<rparr> =
           (this w)\<lparr>setParamsID := False\<rparr>"
    using assms(1) by simp
  from r show ?thesis
  proof
    assume "res = Z_OK"
    with assms(1-5) call i t show ?thesis
      by (simp add: deflateBytes_def deflateBytes_params_def staged_def emit_def Let_def
          getBytesRead_def getBytesWritten_def const_defs)
  next
    assume "res = Z_BUF_ERROR"
    with assms(1-5) call i show ?thesis
      by (simp add: deflateBytes_def deflateBytes_params_def staged_def emit_def Let_def
          getBytesRead_def getBytesWritten_def const_defs)
  qed
qed

lemma empty_step_deflate:
  assumes "lenID (this w) = 0" and "useIGZIP (strm w) = 0" and "\<not> setParamsID (this w)"
    and "GetPrimitiveArrayCritical X Arr_this_buf" and "GetPrimitiveArrayCritical X Arr_b"
    and "idle (staged w off 0) (zlib_call X w b off 0 flush)"
  shows "\<exists>b' w'. deflateBytes X w b off 0 flush = Returns (Some 0, b') w' \<and>
           pending w' = pending w \<and> this w' = (this w)\<lparr>setParamsID := False\<rparr> \<and>
           getBytesRead w' = getBytesRead w \<and> getBytesWritten w' = getBytesWritten w"
proof -
  obtain res z' b' where call:
    "deflate X (staged w off 0) (bufID (this w)) b (flush_arg w flush) = (res, z', b')"
    using prod_cases3 by blast
  from assms call have i: "avail_in z' = 0" "avail_out z' = 0"
    "total_in z' = total_in (zStream (strm w))" "total_out z' = total_out (zStream (strm w))"
    and r: "res = Z_OK \<or> res = Z_BUF_ERROR"
    by (simp_all add: idle_def staged_def zlib_call_def)
  have t: "(this w)\<lparr>offID := offID (this w), lenID := 0\<rparr> = this w"
    using assms(1) by simp
  have f: "(this w)\<lparr>setParamsID := False\<rparr> = this w"
    using assms(3) by simp
  from r show ?thesis
  proof
    assume "res = Z_OK"
    with assms(1-5) call i t f show ?thesis
      by (simp add: deflateBytes_def deflateBytes_deflate_def staged_def flush_arg_def emit_def
          Let_def getBytesRead_def getBytesWritten_def const_defs)
  next
    assume "res = Z_BUF_ERROR"
    with assms(1-5) call i f show ?thesis
      by (simp add: deflateBytes_def deflateBytes_deflate_def staged_def flush_arg_def emit_def
          Let_def getBytesRead_def getBytesWritten_def const_defs)
  qed
qed

lemma empty_step_igzip:
  assumes "lenID (this w) = 0" and "useIGZIP (strm w) \<noteq> 0" and "\<not> igzip_refuses w flush"
    and "\<not> NDEBUG X"
    and "GetPrimitiveArrayCritical X Arr_this_buf" and "GetPrimitiveArrayCritical X Arr_b"
  shows "\<exists>w'. deflateBytes X w b off len flush = Assertion_failed w' \<and>
           this w' = this w \<and> pending w' = pending w"
  using assms
  by (simp add: deflateBytes_def deflateBytes_igzip_def igzip_refuses_def emit_def Let_def)

text \<open>
  C4, as the file has it. Take a step with no input and no output room. On a zlib session,
  when an array cannot be pinned, or when the zlib call of the step makes no progress (as
  it cannot, with both buffers empty), the step returns 0 and throws nothing, and the two
  counters are as they were. The fields of the object are as they were, but for
  \<^verbatim>\<open>setParams\<close>: it is clear afterwards exactly when both arrays were pinned, a pending
  change being cleared on \<^verbatim>\<open>Z_BUF_ERROR\<close> as on \<^verbatim>\<open>Z_OK\<close>, and it is as it was when a
  pin failed. On an igzip session that the step does not refuse and whose arrays are
  pinned, the file asserts that both lengths are nonzero: with assertions compiled in, the
  step stops there and does not return.
\<close>

theorem empty_step:
  assumes "lenID (this w) = 0" and "len = 0"
  shows "(useIGZIP (strm w) = 0 \<and>
          (idle (staged w off len) (zlib_call X w b off len flush) \<or>
           \<not> (GetPrimitiveArrayCritical X Arr_this_buf \<and> GetPrimitiveArrayCritical X Arr_b))
          \<longrightarrow> (\<exists>b' w'. deflateBytes X w b off len flush = Returns (Some 0, b') w' \<and>
                  pending w' = pending w \<and>
                  this w' =
                    (if GetPrimitiveArrayCritical X Arr_this_buf \<and> GetPrimitiveArrayCritical X Arr_b
                     then (this w)\<lparr>setParamsID := False\<rparr> else this w) \<and>
                  getBytesRead w' = getBytesRead w \<and> getBytesWritten w' = getBytesWritten w))
       \<and> (useIGZIP (strm w) \<noteq> 0 \<and> \<not> igzip_refuses w flush \<and> \<not> NDEBUG X \<and>
          GetPrimitiveArrayCritical X Arr_this_buf \<and> GetPrimitiveArrayCritical X Arr_b
          \<longrightarrow> (\<exists>w'. deflateBytes X w b off len flush = Assertion_failed w' \<and>
                 this w' = this w \<and> pending w' = pending w))"
proof (intro conjI impI)
  assume a: "useIGZIP (strm w) = 0 \<and>
    (idle (staged w off len) (zlib_call X w b off len flush) \<or>
     \<not> (GetPrimitiveArrayCritical X Arr_this_buf \<and> GetPrimitiveArrayCritical X Arr_b))"
  show "\<exists>b' w'. deflateBytes X w b off len flush = Returns (Some 0, b') w' \<and>
      pending w' = pending w \<and>
      this w' =
        (if GetPrimitiveArrayCritical X Arr_this_buf \<and> GetPrimitiveArrayCritical X Arr_b
         then (this w)\<lparr>setParamsID := False\<rparr> else this w) \<and>
      getBytesRead w' = getBytesRead w \<and> getBytesWritten w' = getBytesWritten w"
  proof (cases "GetPrimitiveArrayCritical X Arr_this_buf \<and> GetPrimitiveArrayCritical X Arr_b")
    case True
    with a assms show ?thesis
      using empty_step_params [of w X off b flush] empty_step_deflate [of w X off b flush]
      by (cases "setParamsID (this w)") simp_all
  next
    case False
    with a assms obtain w' where
      "deflateBytes X w b off len flush = Returns (Some 0, b) w'" "pending w' = pending w"
      "this w' = this w" "strm w' = strm w"
      using empty_step_pin_failed [of w X b off flush] by auto
    with False show ?thesis
      by (auto simp: getBytesRead_def getBytesWritten_def)
  qed
next
  assume "useIGZIP (strm w) \<noteq> 0 \<and> \<not> igzip_refuses w flush \<and> \<not> NDEBUG X \<and>
    GetPrimitiveArrayCritical X Arr_this_buf \<and> GetPrimitiveArrayCritical X Arr_b"
  with assms show "\<exists>w'. deflateBytes X w b off len flush = Assertion_failed w' \<and>
      this w' = this w \<and> pending w' = pending w"
    using empty_step_igzip [of w flush X b off len] by simp
qed

theorem empty_step_witness:
  "lenID (this (session (sample_this\<lparr>lenID := 0, setParamsID := True\<rparr>) zlib_Stream_used)) = 0 \<and>
   useIGZIP (strm (session (sample_this\<lparr>lenID := 0, setParamsID := True\<rparr>) zlib_Stream_used)) = 0 \<and>
   idle (staged (session (sample_this\<lparr>lenID := 0, setParamsID := True\<rparr>) zlib_Stream_used) 0 0)
     (zlib_call (stored_extern False)
        (session (sample_this\<lparr>lenID := 0, setParamsID := True\<rparr>) zlib_Stream_used) [] 0 0 0) \<and>
   fst (zlib_call (stored_extern False)
        (session (sample_this\<lparr>lenID := 0, setParamsID := True\<rparr>) zlib_Stream_used) [] 0 0 0) =
     Z_BUF_ERROR \<and>
   (\<exists>b' w'. deflateBytes (stored_extern False)
               (session (sample_this\<lparr>lenID := 0, setParamsID := True\<rparr>) zlib_Stream_used)
               [] 0 0 0 =
             Returns (Some 0, b') w' \<and> pending w' = None \<and>
             this w' = sample_this\<lparr>lenID := 0\<rparr> \<and> getBytesRead w' = 7) \<and>
   \<not> GetPrimitiveArrayCritical
       (stored_extern False\<lparr>GetPrimitiveArrayCritical := (\<lambda>a. a = Arr_this_buf)\<rparr>) Arr_b \<and>
   \<not> idle (staged (session (sample_this\<lparr>lenID := 0, setParamsID := True, levelID := 42\<rparr>)
                     zlib_Stream_used) 0 0)
       (zlib_call (stored_extern False\<lparr>GetPrimitiveArrayCritical := (\<lambda>a. a = Arr_this_buf)\<rparr>)
          (session (sample_this\<lparr>lenID := 0, setParamsID := True, levelID := 42\<rparr>)
             zlib_Stream_used) [] 0 0 0) \<and>
   (\<exists>b' w'. deflateBytes
               (stored_extern False\<lparr>GetPrimitiveArrayCritical := (\<lambda>a. a = Arr_this_buf)\<rparr>)
               (session (sample_this\<lparr>lenID := 0, setParamsID := True, levelID := 42\<rparr>)
                  zlib_Stream_used) [] 0 0 0 =
             Returns (Some 0, b') w' \<and> pending w' = None \<and>
             this w' = sample_this\<lparr>lenID := 0, setParamsID := True, levelID := 42\<rparr> \<and>
             getBytesRead w' = 7) \<and>
   useIGZIP (strm (session (sample_this\<lparr>lenID := 0\<rparr>) igzip_Stream)) \<noteq> 0 \<and>
   \<not> igzip_refuses (session (sample_this\<lparr>lenID := 0\<rparr>) igzip_Stream) 0 \<and>
   \<not> NDEBUG (stored_extern True) \<and>
   (\<exists>w'. deflateBytes (stored_extern True) (session (sample_this\<lparr>lenID := 0\<rparr>) igzip_Stream)
            [] 0 0 0 = Assertion_failed w')"
  using empty_step [of "session (sample_this\<lparr>lenID := 0, setParamsID := True\<rparr>) zlib_Stream_used"
      0 0 "stored_extern False" "[]" 0]
    empty_step [of "session (sample_this\<lparr>lenID := 0, setParamsID := True, levelID := 42\<rparr>)
                      zlib_Stream_used"
      0 0 "stored_extern False\<lparr>GetPrimitiveArrayCritical := (\<lambda>a. a = Arr_this_buf)\<rparr>" "[]" 0]
    empty_step [of "session (sample_this\<lparr>lenID := 0\<rparr>) igzip_Stream" 0
      0 "stored_extern True" "[]" 0]
  by (simp add: stored_defs step_defs const_defs idle_def getBytesRead_def)

text \<open>
  The claim as it was stated fails on igzip: with assertions compiled in the empty step
  does not return; with \<^verbatim>\<open>NDEBUG\<close> it returns 0, and when \<^verbatim>\<open>finish\<close> was requested it
  has set \<^verbatim>\<open>finished\<close>.
\<close>

theorem empty_step_igzip_fails:
  "lenID (this (session (sample_this\<lparr>lenID := 0\<rparr>) igzip_Stream)) = 0 \<and>
   (\<exists>w'. deflateBytes (stored_extern True) (session (sample_this\<lparr>lenID := 0\<rparr>) igzip_Stream)
            [] 0 0 0 = Assertion_failed w') \<and>
   \<not> finishedID (this (session (sample_this\<lparr>lenID := 0, finishID := True\<rparr>) igzip_Stream)) \<and>
   (\<exists>w'. deflateBytes (stored_extern True\<lparr>NDEBUG := True\<rparr>)
            (session (sample_this\<lparr>lenID := 0, finishID := True\<rparr>) igzip_Stream) [] 0 0 0 =
            Returns (Some 0, []) w' \<and> finishedID (this w'))"
  by (simp add: stored_defs step_defs const_defs)

subsection \<open>The flag finished\<close>

text \<open>
  C5, as the file has it. A step that returns leaves \<^verbatim>\<open>finished\<close> true exactly when it
  was true before, or the step pinned both arrays, was not refused, and: on a zlib session
  no parameter change was pending and \<^verbatim>\<open>deflate\<close> reported \<^verbatim>\<open>Z_STREAM_END\<close>; on an
  igzip session \<^verbatim>\<open>finish\<close> was requested (\<^verbatim>\<open>fast_lz\<close> reports nothing, so the request
  alone decides, whatever input is left). No step clears the flag, and the native
  \<^verbatim>\<open>reset\<close> leaves the object as it is: the flag turns true at most once until the
  managed side clears it.
\<close>

theorem finished_flag:
  assumes "deflateBytes X w b off len flush = Returns r w'"
  shows "finishedID (this w') =
           (finishedID (this w) \<or>
            (GetPrimitiveArrayCritical X Arr_this_buf \<and> GetPrimitiveArrayCritical X Arr_b \<and>
             \<not> igzip_refuses w flush \<and>
             (if useIGZIP (strm w) \<noteq> 0 then finishID (this w)
              else \<not> setParamsID (this w) \<and>
                   fst (deflate X (staged w off len) (bufID (this w)) b (flush_arg w flush)) =
                     Z_STREAM_END)))
         \<and> this (reset X w') = this w'"
  using assms
  by (auto simp: step_defs const_defs throw_defs reset_def split: prod.splits if_splits)

theorem finished_flag_witness:
  "(\<exists>r w'. deflateBytes (stored_extern False) (session (sample_this\<lparr>finishID := True\<rparr>) zlib_Stream)
             [0, 0] 0 2 0 = Returns r w' \<and> \<not> finishedID (this w')) \<and>
   (\<exists>r w'. deflateBytes (stored_extern False) (session (sample_this\<lparr>finishID := True\<rparr>) zlib_Stream)
             [0, 0, 0, 0, 0] 0 5 0 = Returns r w' \<and> finishedID (this w'))"
  using finished_flag [of "stored_extern False" "session (sample_this\<lparr>finishID := True\<rparr>) zlib_Stream"
      "[0, 0]" 0 2 0]
    finished_flag [of "stored_extern False" "session (sample_this\<lparr>finishID := True\<rparr>) zlib_Stream"
      "[0, 0, 0, 0, 0]" 0 5 0]
  by (simp add: stored_defs step_defs const_defs)

text \<open>
  The claim as it was stated fails on igzip: a step with \<^verbatim>\<open>finish\<close> requested, five bytes
  of input and room for two bytes of output consumes two bytes, leaves three, and sets
  \<^verbatim>\<open>finished\<close>.
\<close>

theorem igzip_finished_with_input_left:
  "\<exists>w'. deflateBytes (stored_extern True) (session (sample_this\<lparr>finishID := True\<rparr>) igzip_Stream)
           [0, 0] 0 2 0 = Returns (Some 2, [1, 2]) w' \<and>
         finishedID (this w') \<and> lenID (this w') = 3 \<and> lz_avail_in (lz2Stream (strm w')) = 3 \<and>
         lz_avail_out (lz2Stream (strm w')) = 0"
  by (simp add: stored_defs step_defs const_defs)

subsection \<open>A pin that fails\<close>

text \<open>
  C6. Take a step that is not refused, on any of the three branches, in which one of the
  two arrays cannot be pinned. When it is the input array, the step returns 0 having
  pinned nothing, and \<^verbatim>\<open>OutOfMemoryError\<close> is pending exactly when the input length is
  nonzero. When it is the output array, the step returns 0 having released the input
  array, and \<^verbatim>\<open>OutOfMemoryError\<close> is pending exactly when the output capacity is nonzero.
  In both cases no backend is called and the object and the stream stay as they were.
\<close>

theorem pin_failure:
  assumes "\<not> igzip_refuses w flush"
    and "FindClass X ''java/lang/OutOfMemoryError''"
    and "\<not> (GetPrimitiveArrayCritical X Arr_this_buf \<and> GetPrimitiveArrayCritical X Arr_b)"
  shows "deflateBytes X w b off len flush =
           (if \<not> GetPrimitiveArrayCritical X Arr_this_buf
            then Returns (Some 0, b)
                   (w\<lparr>trace := trace w @ [Pin_failed Arr_this_buf],
                      pending := (if lenID (this w) \<noteq> 0
                                  then Some (''java/lang/OutOfMemoryError'', None)
                                  else pending w)\<rparr>)
            else Returns (Some 0, b)
                   (w\<lparr>trace := trace w @ [Pinned Arr_this_buf, Pin_failed Arr_b, Released Arr_this_buf],
                      pending := (if len \<noteq> 0
                                  then Some (''java/lang/OutOfMemoryError'', None)
                                  else pending w)\<rparr>))"
  using assms
  by (auto simp: step_defs throw_defs)

theorem pin_failure_witness:
  "\<not> igzip_refuses (session sample_this igzip_Stream) 0 \<and>
   FindClass (stored_extern True\<lparr>GetPrimitiveArrayCritical := (\<lambda>a. a = Arr_this_buf)\<rparr>)
     ''java/lang/OutOfMemoryError'' \<and>
   deflateBytes (stored_extern True\<lparr>GetPrimitiveArrayCritical := (\<lambda>a. a = Arr_this_buf)\<rparr>)
       (session sample_this igzip_Stream) [0, 0] 0 2 0 =
     Returns (Some 0, [0, 0])
       (session sample_this igzip_Stream
          \<lparr>trace := [Pinned Arr_this_buf, Pin_failed Arr_b, Released Arr_this_buf],
           pending := Some (''java/lang/OutOfMemoryError'', None)\<rparr>) \<and>
   deflateBytes (stored_extern True\<lparr>GetPrimitiveArrayCritical := (\<lambda>a. a = Arr_this_buf)\<rparr>)
       (session sample_this igzip_Stream) [] 0 0 0 =
     Returns (Some 0, [])
       (session sample_this igzip_Stream
          \<lparr>trace := [Pinned Arr_this_buf, Pin_failed Arr_b, Released Arr_this_buf]\<rparr>)"
  using pin_failure [of "session sample_this igzip_Stream" 0
      "stored_extern True\<lparr>GetPrimitiveArrayCritical := (\<lambda>a. a = Arr_this_buf)\<rparr>" "[0, 0]" 0 2]
    pin_failure [of "session sample_this igzip_Stream" 0
      "stored_extern True\<lparr>GetPrimitiveArrayCritical := (\<lambda>a. a = Arr_this_buf)\<rparr>" "[]" 0 0]
  by (simp add: stored_defs igzip_refuses_def)

subsection \<open>A step on zlib with no parameter change pending\<close>

text \<open>
  C7. On a zlib session with \<^verbatim>\<open>setParams\<close> clear and both arrays pinned, the step calls
  \<^verbatim>\<open>deflate\<close> on the staged stream and returns. When the result is \<^verbatim>\<open>Z_OK\<close> or
  \<^verbatim>\<open>Z_STREAM_END\<close>, the field \<^verbatim>\<open>off\<close> has advanced by the bytes consumed (the input
  length less what \<^verbatim>\<open>avail_in\<close> has left, in 32-bit arithmetic), \<^verbatim>\<open>len\<close> is what is
  left, the value returned is the output capacity less what \<^verbatim>\<open>avail_out\<close> has left, and
  nothing is thrown. When it is \<^verbatim>\<open>Z_BUF_ERROR\<close> the step returns 0, throws nothing and
  leaves the fields of the object as they were. On any other result it returns 0 with an
  \<^verbatim>\<open>InternalError\<close> pending that carries the message of the stream.
\<close>

theorem deflate_branch_results:
  assumes "useIGZIP (strm w) = 0" and "\<not> setParamsID (this w)"
    and "GetPrimitiveArrayCritical X Arr_this_buf" and "GetPrimitiveArrayCritical X Arr_b"
    and "FindClass X ''java/lang/InternalError''"
    and "deflate X (staged w off len) (bufID (this w)) b (flush_arg w flush) = (res, z', b')"
  shows "\<exists>w'. deflateBytes X w b off len flush =
            Returns (if res = Z_OK \<or> res = Z_STREAM_END then Some (len - avail_out z') else Some 0, b') w'
          \<and> zStream (strm w') = z'
          \<and> (res = Z_OK \<or> res = Z_STREAM_END \<longrightarrow>
                offID (this w') = offID (this w) + (lenID (this w) - avail_in z') \<and>
                lenID (this w') = avail_in z' \<and> pending w' = pending w)
          \<and> (res = Z_BUF_ERROR \<longrightarrow> this w' = this w \<and> pending w' = pending w)
          \<and> (res \<noteq> Z_OK \<and> res \<noteq> Z_STREAM_END \<and> res \<noteq> Z_BUF_ERROR \<longrightarrow>
                this w' = this w \<and> pending w' = Some (''java/lang/InternalError'', msg z'))"
  using assms
  by (auto simp: step_defs const_defs throw_defs)

theorem deflate_branch_results_witness:
  "useIGZIP (strm (session sample_this zlib_Stream)) = 0 \<and>
   \<not> setParamsID (this (session sample_this zlib_Stream)) \<and>
   GetPrimitiveArrayCritical (stored_extern False) Arr_this_buf \<and>
   GetPrimitiveArrayCritical (stored_extern False) Arr_b \<and>
   FindClass (stored_extern False) ''java/lang/InternalError'' \<and>
   (\<exists>w'. deflateBytes (stored_extern False) (session sample_this zlib_Stream) [0, 0, 0] 0 3 0 =
            Returns (Some 3, [1, 2, 3]) w' \<and>
          offID (this w') = 3 \<and> lenID (this w') = 2 \<and> pending w' = None)"
  using deflate_branch_results [of "session sample_this zlib_Stream" "stored_extern False"
      0 3 "[0, 0, 0]" 0 Z_OK
      "snd (stored_deflateInit2 (zStream (calloc_Stream :: (unit, unit) Stream)) 6 8 15 8 0)
         \<lparr>next_in := Some 3, avail_in := 2, total_in := 3, next_out := Some 3, avail_out := 0,
          total_out := 3\<rparr>"
      "[1, 2, 3]"]
  by (simp add: stored_defs step_defs const_defs)

subsection \<open>Counters and reset\<close>

text \<open>
  C8. \<^verbatim>\<open>getBytesRead\<close> and \<^verbatim>\<open>getBytesWritten\<close> return the totals kept in the stream of
  the active backend (\<^verbatim>\<open>lz2Stream\<close> for igzip, \<^verbatim>\<open>zStream\<close> for zlib), read at the
  moment of the call. When the backend's reset zeroes its totals, both counters are zero
  after the native \<^verbatim>\<open>reset\<close> and so after the reset of the session, which also leaves
  \<^verbatim>\<open>finished\<close> false, throws nothing and keeps the backend.
\<close>

theorem counters_and_reset:
  assumes "reset_zeroes X w"
  shows "getBytesRead w = (case activeBackend (strm w) of
                             Fast \<Rightarrow> ucast (lz_total_in (lz2Stream (strm w)))
                           | Standard \<Rightarrow> total_in (zStream (strm w)))
       \<and> getBytesWritten w = (case activeBackend (strm w) of
                             Fast \<Rightarrow> ucast (lz_total_out (lz2Stream (strm w)))
                           | Standard \<Rightarrow> total_out (zStream (strm w)))
       \<and> getBytesRead (reset X w) = 0 \<and> getBytesWritten (reset X w) = 0
       \<and> getBytesRead (session_reset X w) = 0 \<and> getBytesWritten (session_reset X w) = 0
       \<and> \<not> finishedID (this (session_reset X w))
       \<and> pending (session_reset X w) = pending w
       \<and> activeBackend (strm (session_reset X w)) = activeBackend (strm w)"
  using assms
  by (auto simp: query_defs emit_def Let_def const_defs split: prod.splits if_splits)

theorem counters_and_reset_witness:
  "reset_zeroes (stored_extern False) (session (sample_this\<lparr>finishedID := True\<rparr>) zlib_Stream_used) \<and>
   getBytesRead (session (sample_this\<lparr>finishedID := True\<rparr>) zlib_Stream_used) = 7 \<and>
   getBytesRead (session_reset (stored_extern False)
                   (session (sample_this\<lparr>finishedID := True\<rparr>) zlib_Stream_used)) = 0 \<and>
   reset_zeroes (stored_extern True) (session (sample_this\<lparr>finishedID := True\<rparr>) igzip_Stream_used) \<and>
   getBytesWritten (session (sample_this\<lparr>finishedID := True\<rparr>) igzip_Stream_used) = 7 \<and>
   getBytesWritten (session_reset (stored_extern True)
                   (session (sample_this\<lparr>finishedID := True\<rparr>) igzip_Stream_used)) = 0"
  using counters_and_reset [of "stored_extern False"
      "session (sample_this\<lparr>finishedID := True\<rparr>) zlib_Stream_used"]
    counters_and_reset [of "stored_extern True"
      "session (sample_this\<lparr>finishedID := True\<rparr>) igzip_Stream_used"]
  by (simp add: stored_defs query_defs const_defs)

subsection \<open>The checksum\<close>

text \<open>
  C9. With nothing pending before, \<^verbatim>\<open>getAdler\<close> leaves an exception pending if and only
  if the session is on igzip. On zlib it returns the \<^verbatim>\<open>adler\<close> of the stream (its low
  32 bits) and changes nothing. On igzip it throws the \<^verbatim>\<open>InternalError\<close> by which the
  file reports an unsupported operation, and returns no value.
\<close>

theorem getAdler_backend:
  assumes "pending w = None"
  shows "(pending (snd (getAdler X w)) \<noteq> None \<longleftrightarrow> activeBackend (strm w) = Fast)
       \<and> (activeBackend (strm w) = Standard \<longrightarrow>
            getAdler X w = (Some (ucast (adler (zStream (strm w)))), w))
       \<and> (activeBackend (strm w) = Fast \<and> FindClass X ''java/lang/InternalError'' \<longrightarrow>
            getAdler X w =
              (None, w\<lparr>pending := Some (''java/lang/InternalError'',
                                         Some ''igzip doesn't support getAdler function'')\<rparr>))"
  using assms
  by (auto simp: getAdler_def activeBackend_def throw_defs)

theorem getAdler_backend_witness:
  "pending (session sample_this zlib_Stream) = None \<and>
   activeBackend (strm (session sample_this zlib_Stream)) = Standard \<and>
   getAdler (stored_extern False) (session sample_this zlib_Stream) =
     (Some 1, session sample_this zlib_Stream) \<and>
   pending (session sample_this igzip_Stream) = None \<and>
   activeBackend (strm (session sample_this igzip_Stream)) = Fast \<and>
   pending (snd (getAdler (stored_extern True) (session sample_this igzip_Stream))) \<noteq> None"
  using getAdler_backend [of "session sample_this zlib_Stream" "stored_extern False"]
    getAdler_backend [of "session sample_this igzip_Stream" "stored_extern True"]
  by (simp add: stored_defs activeBackend_def const_defs)

end
